theory Spec2Isabelle
  imports Complex_Main "HOL-Library.Char_ord" "HOL-Library.List_Lexorder" "HOL-Library.Multiset"
begin

section \<open>Ice crystal morphometry: the CSV summary pipeline\<close>

text \<open>
  A shallow embedding of \<^verbatim>\<open>ice_morphometry_csv_summary.py\<close>: the disk benchmark
  \<^verbatim>\<open>test_disk_write_speed\<close>, the chart call \<^verbatim>\<open>plot_lines_with_options\<close> and the
  pipeline \<^verbatim>\<open>reindex_and_analyze\<close>. A finite Python float is read as a real
  number and computed with exactly; the two infinities and the missing value
  (pandas NaN) are cells of their own. An exception is the left summand of a
  sum type, and the output folder is a map from file names to contents that
  every function takes and returns.
\<close>

subsection \<open>Data model\<close>

datatype cell = Num real | PInf | MInf | Str string | NaN

record dataframe =
  columns :: "string list"
  rows :: "cell list list"

text \<open>
  The messages of a \<^verbatim>\<open>ValueError\<close>: the pipeline's own, with the list of
  missing columns, the one of \<^verbatim>\<open>reset_index\<close>, and the one of an aggregation
  over no column at all.
\<close>

datatype value_error = ColumnsNotFound "string list" | CannotInsert string | NoObjects

datatype error =
    FileNotFoundError string
  | OSError
  | ZeroDivisionError
  | OverflowError
  | ParserError string
  | KeyError "string list"
  | ValueError value_error
  | TypeError

text \<open>What the chart shows: the interval of its title and one line per column.\<close>

record chart =
  title_interval :: int
  lines :: "(string \<times> cell list \<times> cell list) list"

datatype content = Scratch nat | Csv "cell list list" | Png chart

type_synonym folder = "string \<rightharpoonup> content"

text \<open>The lines printed on the console that depend on the measurements.\<close>

datatype message =
    DiskSpeed real
  | SlowDisk real
  | FewColumns nat
  | Adequate real nat
  | FinalDecision bool
  | Workers nat nat
  | SingleProcess
  | CoercionWarning string
  | CpuLoad real
  | Eta real

subsection \<open>The disk benchmark\<close>

text \<open>
  What the benchmark meets when it runs: whether \<^verbatim>\<open>open\<close> succeeds, the index of
  the \<^verbatim>\<open>f.write\<close> call that raises (if one does), and the two readings of
  \<^verbatim>\<open>time.time()\<close>.
\<close>

record bench_env =
  open_ok :: bool
  write_fail_at :: "nat option"
  t_start :: real
  t_end :: real

text \<open>\<^verbatim>\<open>data = "0123456789" * 1024 * 100\<close>\<close>

definition data_len :: nat where
  "data_len = 10 * 1024 * 100"

text \<open>
  \<^verbatim>\<open>for _ in range(100): f.write(data)\<close>, started at iteration \<open>i\<close> with \<open>n\<close>
  iterations left: the bytes in the file afterwards, and whether every write
  succeeded.
\<close>

fun write_chunks :: "nat option \<Rightarrow> nat \<Rightarrow> nat \<Rightarrow> nat \<Rightarrow> nat \<times> bool" where
  "write_chunks fail i 0 written = (written, True)"
| "write_chunks fail i (Suc n) written =
     (if fail = Some i then (written, False)
      else write_chunks fail (Suc i) n (written + data_len))"

text \<open>
  \<^verbatim>\<open>test_disk_write_speed\<close>. The \<^verbatim>\<open>with\<close> block closes the file when a write
  raises and the exception leaves the function: \<^verbatim>\<open>os.remove\<close> is the statement
  after the block and is not reached.
\<close>

definition test_disk_write_speed ::
  "bench_env \<Rightarrow> string \<Rightarrow> folder \<Rightarrow> folder \<times> (error + real)" where
  "test_disk_write_speed b test_path fs =
     (if \<not> open_ok b then (fs, Inl OSError)
      else
        (case write_chunks (write_fail_at b) 0 100 0 of
           (written, False) \<Rightarrow> (fs(test_path \<mapsto> Scratch written), Inl OSError)
         | (written, True) \<Rightarrow>
             (let fs' = (fs(test_path \<mapsto> Scratch written))(test_path := None)
              in if t_end b - t_start b = 0 then (fs', Inl ZeroDivisionError)
                 else (fs', Inr (100 / (t_end b - t_start b))))))"

subsection \<open>The execution-mode decision\<close>

text \<open>
  Lines 136 to 167 of \<^verbatim>\<open>reindex_and_analyze\<close>: the flag starts as the caller's
  choice and the first two branches clear it. \<^verbatim>\<open>os.cpu_count()\<close> is taken as a
  number.
\<close>

definition use_parallel_determined :: "real \<Rightarrow> nat \<Rightarrow> bool \<Rightarrow> bool" where
  "use_parallel_determined disk_speed ncols use_parallel =
     (if disk_speed < 50 then False
      else if ncols \<le> 2 then False
      else use_parallel)"

text \<open>\<^verbatim>\<open>num_workers\<close> is assigned only on the parallel branch.\<close>

definition num_workers :: "real \<Rightarrow> nat \<Rightarrow> nat \<Rightarrow> bool \<Rightarrow> nat option" where
  "num_workers disk_speed ncols cpu_count use_parallel =
     (if use_parallel_determined disk_speed ncols use_parallel
      then Some (min cpu_count 8) else None)"

definition plan_messages :: "real \<Rightarrow> nat \<Rightarrow> nat \<Rightarrow> bool \<Rightarrow> message list" where
  "plan_messages disk_speed ncols cpu_count use_parallel =
     [DiskSpeed disk_speed]
     @ (if disk_speed < 50 then [SlowDisk disk_speed]
        else if ncols \<le> 2 then [FewColumns ncols]
        else [Adequate disk_speed ncols])
     @ [FinalDecision (use_parallel_determined disk_speed ncols use_parallel)]
     @ (case num_workers disk_speed ncols cpu_count use_parallel of
          Some w \<Rightarrow> [Workers w cpu_count]
        | None \<Rightarrow> [SingleProcess])"

subsection \<open>Data frames\<close>

text \<open>The cell of a row under a column name; a column the row lacks reads as missing.\<close>

definition cell_of :: "string list \<Rightarrow> cell list \<Rightarrow> string \<Rightarrow> cell" where
  "cell_of cols r c = (case map_of (zip cols r) c of Some v \<Rightarrow> v | None \<Rightarrow> NaN)"

definition col_values :: "dataframe \<Rightarrow> string \<Rightarrow> cell list" where
  "col_values df c = map (\<lambda>r. cell_of (columns df) r c) (rows df)"

text \<open>\<^verbatim>\<open>df[c] = v\<close>: an existing column is overwritten in place, a new one goes last.\<close>

definition set_col :: "string \<Rightarrow> cell \<Rightarrow> dataframe \<Rightarrow> dataframe" where
  "set_col c v df =
     (let cols' = (if c \<in> set (columns df) then columns df else columns df @ [c])
      in \<lparr>columns = cols',
          rows = map (\<lambda>r. map (\<lambda>c'. if c' = c then v else cell_of (columns df) r c') cols')
                     (rows df)\<rparr>)"

text \<open>
  \<^verbatim>\<open>pd.concat(all_data, ignore_index=True)\<close>: the columns are the union in order
  of first appearance, the rows follow frame by frame, and a column a frame
  lacks is missing in its rows.
\<close>

definition union_columns :: "dataframe list \<Rightarrow> string list" where
  "union_columns dfs = rev (remdups (rev (concat (map columns dfs))))"

definition concat_frames :: "dataframe list \<Rightarrow> dataframe" where
  "concat_frames dfs =
     (let cols = union_columns dfs
      in \<lparr>columns = cols,
          rows = concat (map (\<lambda>df. map (\<lambda>r. map (cell_of (columns df) r) cols) (rows df)) dfs)\<rparr>)"

subsection \<open>Discovering and reading the input files\<close>

text \<open>
  An entry of the input folder: its name, its size, and the table
  \<^verbatim>\<open>pd.read_csv\<close> returns for it (\<open>None\<close> when \<^verbatim>\<open>read_csv\<close> raises).
\<close>

record input_file =
  fname :: string
  fsize :: nat
  parsed :: "dataframe option"

definition endswith :: "string \<Rightarrow> string \<Rightarrow> bool" where
  "endswith s suf = (length suf \<le> length s \<and> drop (length s - length suf) s = suf)"

text \<open>\<^verbatim>\<open>in_path.glob("*_morphometry_results.csv")\<close>\<close>

definition glob :: "input_file list \<Rightarrow> input_file list" where
  "glob entries = filter (\<lambda>f. endswith (fname f) ''_morphometry_results.csv'') entries"

text \<open>
  What the run meets outside its arguments: the two folders, the entries of
  the input folder in the order the system lists them, the benchmark's
  environment, \<^verbatim>\<open>os.cpu_count()\<close>, \<^verbatim>\<open>psutil.cpu_percent\<close>, and the
  number a string converts to under \<^verbatim>\<open>pd.to_numeric\<close>.
\<close>

record run_env =
  in_is_dir :: bool
  in_name :: string
  out_is_dir :: bool
  listing :: "input_file list"
  bench :: bench_env
  cpu_count :: nat
  cpu_load :: real
  parse_float :: "string \<Rightarrow> real option"

text \<open>Lines 116 to 127: the folder checks and the sorted list of matching files.\<close>

definition discover :: "run_env \<Rightarrow> error + input_file list" where
  "discover env =
     (if \<not> in_is_dir env then Inl (FileNotFoundError ''Input folder not found'')
      else if \<not> out_is_dir env then Inl (FileNotFoundError ''Output folder not found'')
      else
        (let csv_files = sort_key fname (glob (listing env))
         in if csv_files = [] then Inl (FileNotFoundError ''No CSV files matching'')
            else Inr csv_files))"

text \<open>
  The body of the loop at lines 171 to 180, for the file enumerated as \<open>i\<close>.
  The interval is a Python integer, as the signature of the pipeline says.
\<close>

definition stamp :: "int \<Rightarrow> nat \<Rightarrow> string \<Rightarrow> dataframe \<Rightarrow> dataframe" where
  "stamp time_interval i name df =
     (let frame_num = real i;
          time_sec = real (i - 1) * real_of_int time_interval
      in set_col ''SourceFile'' (Str name)
           (set_col ''TimeMin'' (Num (time_sec / 60))
             (set_col ''TimeSec'' (Num time_sec)
               (set_col ''Frame'' (Num frame_num) df))))"

text \<open>
  \<^verbatim>\<open>time_sec / 60\<close> on a Python integer raises \<^verbatim>\<open>OverflowError\<close> when the
  quotient, rounded to the nearest double, is beyond the largest one: from
  half way between the largest double and \<open>2 ^ 1024\<close> on.
\<close>

definition division_overflows :: "int \<Rightarrow> bool" where
  "division_overflows time_sec \<longleftrightarrow> 2 ^ 1024 - 2 ^ 970 \<le> \<bar>real_of_int time_sec\<bar> / 60"

text \<open>
  \<^verbatim>\<open>for i, csv_file in enumerate(csv_files, start=1)\<close>, from position \<open>i\<close> on.
  The file is read before its TimeMin is computed.
\<close>

fun read_files :: "int \<Rightarrow> nat \<Rightarrow> input_file list \<Rightarrow> error + dataframe list" where
  "read_files time_interval i [] = Inr []"
| "read_files time_interval i (f # fs) =
     (case parsed f of
        None \<Rightarrow> Inl (ParserError (fname f))
      | Some df \<Rightarrow>
          if division_overflows (int (i - 1) * time_interval) then Inl OverflowError
          else
            (case read_files time_interval (Suc i) fs of
               Inl e \<Rightarrow> Inl e
             | Inr all_data \<Rightarrow> Inr (stamp time_interval i (fname f) df # all_data)))"

subsection \<open>Numeric coercion\<close>

text \<open>A column has a numeric dtype when none of its cells is a string.\<close>

definition is_numeric :: "cell list \<Rightarrow> bool" where
  "is_numeric cs = list_all (\<lambda>c. case c of Str s \<Rightarrow> False | _ \<Rightarrow> True) cs"

text \<open>
  \<^verbatim>\<open>pd.to_numeric\<close> on a column: every string must convert, or the call raises
  (\<open>None\<close>).
\<close>

definition to_numeric :: "(string \<Rightarrow> real option) \<Rightarrow> cell list \<Rightarrow> cell list option" where
  "to_numeric parse cs =
     (if list_all (\<lambda>c. case c of Str s \<Rightarrow> parse s \<noteq> None | _ \<Rightarrow> True) cs
      then Some (map (\<lambda>c. case c of
                            Str s \<Rightarrow> (case parse s of Some x \<Rightarrow> Num x | None \<Rightarrow> c)
                          | _ \<Rightarrow> c) cs)
      else None)"

text \<open>\<^verbatim>\<open>df[c] = values\<close> for a column the frame has.\<close>

definition put_col :: "string \<Rightarrow> cell list \<Rightarrow> dataframe \<Rightarrow> dataframe" where
  "put_col c vs df =
     \<lparr>columns = columns df,
      rows = map (\<lambda>(r, v). map (\<lambda>c'. if c' = c then v else cell_of (columns df) r c') (columns df))
                 (zip (rows df) vs)\<rparr>"

text \<open>\<^verbatim>\<open>if col in df_all.columns and col not in numeric_columns: numeric_columns.append(col)\<close>\<close>

definition add_present :: "dataframe \<Rightarrow> string list \<Rightarrow> string list \<Rightarrow> string list" where
  "add_present df extra numeric =
     fold (\<lambda>col acc. if col \<in> set (columns df) \<and> col \<notin> set acc then acc @ [col] else acc)
          extra numeric"

definition numeric_columns :: "dataframe \<Rightarrow> string list \<Rightarrow> string list" where
  "numeric_columns df selected_columns =
     add_present df selected_columns
       (add_present df [''Frame'', ''TimeSec'', ''TimeMin'']
          (filter (\<lambda>c. is_numeric (col_values df c)) (columns df)))"

text \<open>The \<^verbatim>\<open>try\<close> of lines 198 to 202 for one column: a failure is only a warning.\<close>

definition coerce_column ::
  "(string \<Rightarrow> real option) \<Rightarrow> string \<Rightarrow> dataframe \<times> message list \<Rightarrow> dataframe \<times> message list" where
  "coerce_column parse col st =
     (case to_numeric parse (col_values (fst st) col) of
        Some vs \<Rightarrow> (put_col col vs (fst st), snd st)
      | None \<Rightarrow> (fst st, snd st @ [CoercionWarning col]))"

definition coerce ::
  "(string \<Rightarrow> real option) \<Rightarrow> string list \<Rightarrow> dataframe \<Rightarrow> dataframe \<times> message list" where
  "coerce parse selected_columns df =
     fold (coerce_column parse) (numeric_columns df selected_columns) (df, [])"

subsection \<open>Grouping by frame and the statistics\<close>

definition row_frame :: "string list \<Rightarrow> cell list \<Rightarrow> real option" where
  "row_frame cols r = (case cell_of cols r ''Frame'' of Num x \<Rightarrow> Some x | _ \<Rightarrow> None)"

text \<open>The group keys of \<^verbatim>\<open>groupby("Frame")\<close>: the frame values present, ascending.\<close>

definition frame_keys :: "dataframe \<Rightarrow> real list" where
  "frame_keys df = sort (remdups (List.map_filter (row_frame (columns df)) (rows df)))"

text \<open>The cells of column \<open>c\<close> in the rows of frame \<open>k\<close>.\<close>

definition group_values :: "dataframe \<Rightarrow> real \<Rightarrow> string \<Rightarrow> cell list" where
  "group_values df k c =
     map (\<lambda>r. cell_of (columns df) r c)
         (filter (\<lambda>r. row_frame (columns df) r = Some k) (rows df))"

text \<open>
  The arithmetic of doubles on the values of a numeric column: finite numbers
  are computed with exactly, the infinities and NaN follow IEEE 754. A string
  never reaches it (the aggregation raises first) and reads as NaN.
\<close>

fun fneg :: "cell \<Rightarrow> cell" where
  "fneg (Num x) = Num (- x)"
| "fneg PInf = MInf"
| "fneg MInf = PInf"
| "fneg c = NaN"

fun fadd :: "cell \<Rightarrow> cell \<Rightarrow> cell" where
  "fadd (Num x) (Num y) = Num (x + y)"
| "fadd (Num x) PInf = PInf"
| "fadd (Num x) MInf = MInf"
| "fadd PInf (Num y) = PInf"
| "fadd PInf PInf = PInf"
| "fadd MInf (Num y) = MInf"
| "fadd MInf MInf = MInf"
| "fadd a b = NaN"

text \<open>A finite factor times an infinity: zero times infinity is NaN.\<close>

definition times_inf :: "real \<Rightarrow> cell \<Rightarrow> cell" where
  "times_inf x i = (if x = 0 then NaN else if 0 < x then i else fneg i)"

fun fmul :: "cell \<Rightarrow> cell \<Rightarrow> cell" where
  "fmul (Num x) (Num y) = Num (x * y)"
| "fmul (Num x) PInf = times_inf x PInf"
| "fmul (Num x) MInf = times_inf x MInf"
| "fmul PInf (Num y) = times_inf y PInf"
| "fmul MInf (Num y) = times_inf y MInf"
| "fmul PInf PInf = PInf"
| "fmul MInf MInf = PInf"
| "fmul PInf MInf = MInf"
| "fmul MInf PInf = MInf"
| "fmul a b = NaN"

text \<open>The quotient by a count, which is positive wherever the statistics divide.\<close>

fun fdiv_count :: "cell \<Rightarrow> real \<Rightarrow> cell" where
  "fdiv_count (Num x) n = Num (x / n)"
| "fdiv_count PInf n = PInf"
| "fdiv_count MInf n = MInf"
| "fdiv_count c n = NaN"

fun fsqrt :: "cell \<Rightarrow> cell" where
  "fsqrt (Num x) = (if 0 \<le> x then Num (sqrt x) else NaN)"
| "fsqrt PInf = PInf"
| "fsqrt c = NaN"

text \<open>pandas skips missing values in every statistic.\<close>

definition notna :: "cell list \<Rightarrow> cell list" where
  "notna cs = filter (\<lambda>c. c \<noteq> NaN) cs"

text \<open>The group mean: the sum of the values over their number.\<close>

definition mean :: "cell list \<Rightarrow> cell" where
  "mean cs =
     (let vs = notna cs
      in if vs = [] then NaN else fdiv_count (foldl fadd (Num 0) vs) (real (length vs)))"

text \<open>
  One step of the variance update of pandas' \<^verbatim>\<open>group_var\<close> on the state
  (observations, running mean, sum of squared deviations):
  \<^verbatim>\<open>nobs += 1; oldmean = mean; mean += (val - oldmean) / nobs;
  out += (val - mean) * (val - oldmean)\<close>.
\<close>

definition welford :: "nat \<times> cell \<times> cell \<Rightarrow> cell \<Rightarrow> nat \<times> cell \<times> cell" where
  "welford s val =
     (case s of (nobs, oldmean, out) \<Rightarrow>
        (let mean' = fadd oldmean (fdiv_count (fadd val (fneg oldmean)) (real (Suc nobs)))
         in (Suc nobs, mean', fadd out (fmul (fadd val (fneg mean')) (fadd val (fneg oldmean))))))"

definition group_var :: "cell list \<Rightarrow> nat \<times> cell \<times> cell" where
  "group_var cs = foldl welford (0, Num 0, Num 0) (notna cs)"

text \<open>
  The standard deviation with \<^verbatim>\<open>ddof=1\<close>: NaN when the observations do not
  exceed \<^verbatim>\<open>ddof\<close>, else the root of the sum of squared deviations over
  \<open>ct - 1\<close>.
\<close>

definition std :: "cell list \<Rightarrow> cell" where
  "std cs =
     (case group_var cs of (ct, m, out) \<Rightarrow>
        if ct \<le> 1 then NaN else fsqrt (fdiv_count out (real ct - 1)))"

text \<open>The standard error of the mean: the standard deviation over the root of the count.\<close>

definition sem :: "cell list \<Rightarrow> cell" where
  "sem cs =
     (case group_var cs of (ct, m, out) \<Rightarrow>
        if ct \<le> 1 then NaN
        else fdiv_count (fsqrt (fdiv_count out (real ct - 1))) (sqrt (real ct)))"

definition count_stat :: "cell list \<Rightarrow> cell" where
  "count_stat cs = Num (real (length (notna cs)))"

text \<open>The result of a group-by: the column labels and one row per group key.\<close>

record 'c grouped =
  gcolumns :: "'c list"
  gdata :: "(real \<times> cell list) list"

definition missing_cols :: "dataframe \<Rightarrow> string list \<Rightarrow> string list" where
  "missing_cols df selected_columns = filter (\<lambda>c. c \<notin> set (columns df)) selected_columns"

text \<open>
  \<^verbatim>\<open>df_all.groupby("Frame")[selected_columns]\<close> followed by an aggregation:
  pandas raises \<^verbatim>\<open>KeyError\<close> for labels the frame lacks, and \<^verbatim>\<open>TypeError\<close>
  when a selected column still holds strings.
\<close>

definition select_grouped :: "dataframe \<Rightarrow> string list \<Rightarrow> error + unit" where
  "select_grouped df selected_columns =
     (if missing_cols df selected_columns \<noteq> [] then Inl (KeyError (missing_cols df selected_columns))
      else if list_ex (\<lambda>c. \<not> is_numeric (col_values df c)) selected_columns then Inl TypeError
      else Inr ())"

text \<open>\<^verbatim>\<open>.mean()\<close>\<close>

definition groupby_mean :: "dataframe \<Rightarrow> string list \<Rightarrow> error + string grouped" where
  "groupby_mean df selected_columns =
     (case select_grouped df selected_columns of
        Inl e \<Rightarrow> Inl e
      | Inr u \<Rightarrow>
          Inr \<lparr>gcolumns = selected_columns,
               gdata = map (\<lambda>k. (k, map (\<lambda>c. mean (group_values df k c)) selected_columns))
                           (frame_keys df)\<rparr>)"

definition stats :: "(string \<times> (cell list \<Rightarrow> cell)) list" where
  "stats = [(''mean'', mean), (''std'', std), (''sem'', sem), (''count'', count_stat)]"

text \<open>
  \<^verbatim>\<open>.agg(["mean", "std", "sem", "count"])\<close>: the labels are pairs (column,
  statistic). With no column selected pandas has no results to put together
  and raises.
\<close>

definition groupby_agg :: "dataframe \<Rightarrow> string list \<Rightarrow> error + (string \<times> string) grouped" where
  "groupby_agg df selected_columns =
     (case select_grouped df selected_columns of
        Inl e \<Rightarrow> Inl e
      | Inr u \<Rightarrow>
          if selected_columns = [] then Inl (ValueError NoObjects)
          else
          Inr \<lparr>gcolumns = concat (map (\<lambda>c. map (\<lambda>s. (c, fst s)) stats) selected_columns),
               gdata = map (\<lambda>k. (k, concat (map (\<lambda>c. map (\<lambda>s. snd s (group_values df k c)) stats)
                                                 selected_columns)))
                           (frame_keys df)\<rparr>)"

text \<open>\<^verbatim>\<open>grouped_stats.columns = [f"{col}_{stat}" for col, stat in grouped_stats.columns]\<close>\<close>

definition flatten :: "(string \<times> string) grouped \<Rightarrow> string grouped" where
  "flatten g = \<lparr>gcolumns = map (\<lambda>(col, stat). col @ ''_'' @ stat) (gcolumns g), gdata = gdata g\<rparr>"

text \<open>
  \<^verbatim>\<open>reset_index()\<close>: the group key becomes the first column, named Frame;
  pandas refuses to insert it when a column of that name is there already.
\<close>

definition reset_index :: "string grouped \<Rightarrow> error + dataframe" where
  "reset_index g =
     (if ''Frame'' \<in> set (gcolumns g) then Inl (ValueError (CannotInsert ''Frame''))
      else Inr \<lparr>columns = ''Frame'' # gcolumns g, rows = map (\<lambda>(k, r). Num k # r) (gdata g)\<rparr>)"

text \<open>\<^verbatim>\<open>df_all.groupby('Frame')[selected_columns].mean().reset_index()\<close>\<close>

definition average_data :: "dataframe \<Rightarrow> string list \<Rightarrow> error + dataframe" where
  "average_data df_all selected_columns =
     (case groupby_mean df_all selected_columns of
        Inl e \<Rightarrow> Inl e
      | Inr g \<Rightarrow> reset_index g)"

text \<open>Lines 230 to 241: the aggregation, flattened, with the index reset.\<close>

definition grouped_stats :: "dataframe \<Rightarrow> string list \<Rightarrow> error + dataframe" where
  "grouped_stats df_all selected_columns =
     (case groupby_agg df_all selected_columns of
        Inl e \<Rightarrow> Inl e
      | Inr g \<Rightarrow> reset_index (flatten g))"

text \<open>
  Reading a table that has a Frame column: the cell of frame \<open>k\<close> under the
  column \<open>c\<close>, if the table has such a row and such a column.
\<close>

definition at_frame :: "dataframe \<Rightarrow> real \<Rightarrow> string \<Rightarrow> cell option" where
  "at_frame df k c =
     (case find (\<lambda>r. row_frame (columns df) r = Some k) (rows df) of
        None \<Rightarrow> None
      | Some r \<Rightarrow> map_of (zip (columns df) r) c)"

subsection \<open>Writing the reports and the chart\<close>

text \<open>\<^verbatim>\<open>to_csv(csvfile, index=False, header=...)\<close>: the lines written, a line being its fields.\<close>

definition to_csv :: "bool \<Rightarrow> dataframe \<Rightarrow> cell list list" where
  "to_csv header df = (if header then [map Str (columns df)] else []) @ rows df"

text \<open>\<^verbatim>\<open>pd.DataFrame([['NaN'] * len(df_all.columns)], columns=df_all.columns)\<close>\<close>

definition separator :: "dataframe \<Rightarrow> dataframe" where
  "separator df_all =
     \<lparr>columns = columns df_all, rows = [replicate (length (columns df_all)) (Str ''NaN'')]\<rparr>"

text \<open>
  Lines 210 to 219. The file is opened before anything is computed, so when
  the group-by raises, the file stays with what was written until then.
\<close>

definition write_raw ::
  "string \<Rightarrow> dataframe \<Rightarrow> string list \<Rightarrow> folder \<Rightarrow> folder \<times> (error + unit)" where
  "write_raw raw_data_file df_all selected_columns fs =
     (let written = to_csv True df_all @ to_csv False (separator df_all)
      in case average_data df_all selected_columns of
           Inl e \<Rightarrow> (fs(raw_data_file \<mapsto> Csv written), Inl e)
         | Inr avg \<Rightarrow> (fs(raw_data_file \<mapsto> Csv (written @ to_csv True avg)), Inr ()))"

text \<open>
  \<^verbatim>\<open>plot_lines_with_options\<close> as the pipeline calls it, with the error bars and
  the polynomial fit off: one line per selected column, Frame against the
  column, saved under the prefix.
\<close>

definition plot_lines_with_options ::
  "dataframe \<Rightarrow> string \<Rightarrow> string list \<Rightarrow> int \<Rightarrow> folder \<Rightarrow> folder" where
  "plot_lines_with_options df prefix selected_columns time_interval fs =
     fs(prefix @ ''_metrics_vs_frame.png'' \<mapsto>
        Png \<lparr>title_interval = time_interval,
             lines = map (\<lambda>col. (col, col_values df ''Frame'', col_values df col))
                         selected_columns\<rparr>)"

text \<open>\<^verbatim>\<open>eta\<close> of line 261.\<close>

definition eta :: "nat \<Rightarrow> real \<Rightarrow> real \<Rightarrow> real" where
  "eta ncols cpu disk_speed = real ncols * 0.4 * (1 + cpu / 100) * (1 + 100 / max disk_speed 10)"

text \<open>
  Lines 206 to 278, from the merged frame on. The second aggregation of lines
  249 to 253 repeats the first and its result is not used.
\<close>

definition analyse ::
  "string \<Rightarrow> string list \<Rightarrow> int \<Rightarrow> string \<Rightarrow> real \<Rightarrow> real \<Rightarrow> dataframe \<Rightarrow> folder \<Rightarrow>
   message list \<Rightarrow> folder \<times> message list \<times> (error + unit)" where
  "analyse prefix selected_columns time_interval timestamp disk_speed cpu df_all fs console =
     (case write_raw (prefix @ ''_raw_data_'' @ timestamp @ ''.csv'') df_all selected_columns fs of
        (fs2, Inl e) \<Rightarrow> (fs2, console, Inl e)
      | (fs2, Inr u) \<Rightarrow>
          if missing_cols df_all selected_columns \<noteq> []
          then (fs2, console,
                Inl (ValueError (ColumnsNotFound (missing_cols df_all selected_columns))))
          else
            (case grouped_stats df_all selected_columns of
               Inl e \<Rightarrow> (fs2, console, Inl e)
             | Inr summary \<Rightarrow>
                 (let fs3 = fs2(prefix @ ''_summary_stats_'' @ timestamp @ ''.csv'' \<mapsto>
                              Csv (to_csv True summary));
                      console' = console @ [CpuLoad cpu,
                                            Eta (eta (length selected_columns) cpu disk_speed)]
                  in case average_data df_all selected_columns of
                       Inl e \<Rightarrow> (fs3, console', Inl e)
                     | Inr avg \<Rightarrow>
                         (plot_lines_with_options avg prefix selected_columns time_interval fs3,
                          console', Inr ()))))"

text \<open>\<^verbatim>\<open>reindex_and_analyze\<close>: the output folder afterwards, the console, and the outcome.\<close>

definition reindex_and_analyze ::
  "run_env \<Rightarrow> string list \<Rightarrow> int \<Rightarrow> bool \<Rightarrow> string \<Rightarrow> folder \<Rightarrow>
   folder \<times> message list \<times> (error + unit)" where
  "reindex_and_analyze env selected_columns time_interval use_parallel timestamp fs =
     (case discover env of
        Inl e \<Rightarrow> (fs, [], Inl e)
      | Inr csv_files \<Rightarrow>
          (case test_disk_write_speed (bench env) ''disk_test.tmp'' fs of
             (fs1, Inl e) \<Rightarrow> (fs1, [], Inl e)
           | (fs1, Inr disk_speed) \<Rightarrow>
               (let console = plan_messages disk_speed (length selected_columns) (cpu_count env)
                            use_parallel
                in case read_files time_interval 1 csv_files of
                     Inl e \<Rightarrow> (fs1, console, Inl e)
                   | Inr all_data \<Rightarrow>
                       (let merged = coerce (parse_float env) selected_columns
                                       (concat_frames all_data)
                        in analyse (in_name env) selected_columns time_interval timestamp
                             disk_speed (cpu_load env) (fst merged) fs1 (console @ snd merged)))))"

subsection \<open>A sample run\<close>

text \<open>
  Two measurement files, listed out of order, with one column each file has
  and one only the second has.
\<close>

definition file_a :: input_file where
  "file_a = \<lparr>fname = ''a_morphometry_results.csv'', fsize = 20,
             parsed = Some \<lparr>columns = [''Diameter''], rows = [[Num 1], [Num 3]]\<rparr>\<rparr>"

definition file_b :: input_file where
  "file_b = \<lparr>fname = ''b_morphometry_results.csv'', fsize = 30,
             parsed = Some \<lparr>columns = [''Diameter'', ''Perimeter''],
                            rows = [[Num 5, Num 2]]\<rparr>\<rparr>"

definition bench_ok :: bench_env where
  "bench_ok = \<lparr>open_ok = True, write_fail_at = None, t_start = 0, t_end = 1\<rparr>"

text \<open>A benchmark whose fourth write raises.\<close>

definition bench_write_fails :: bench_env where
  "bench_write_fails = \<lparr>open_ok = True, write_fail_at = Some 3, t_start = 0, t_end = 1\<rparr>"

definition sample_env :: run_env where
  "sample_env = \<lparr>in_is_dir = True, in_name = ''R2'', out_is_dir = True,
                 listing = [file_b, file_a], bench = bench_ok, cpu_count = 4, cpu_load = 10,
                 parse_float = (\<lambda>s. None)\<rparr>"

text \<open>The two files as the reading loop leaves them, for a TimeSec \<open>t\<close> of the second.\<close>

definition frame_a :: dataframe where
  "frame_a = \<lparr>columns = [''Diameter'', ''Frame'', ''TimeSec'', ''TimeMin'', ''SourceFile''],
      rows = [[Num 1, Num 1, Num 0, Num 0, Str ''a_morphometry_results.csv''],
              [Num 3, Num 1, Num 0, Num 0, Str ''a_morphometry_results.csv'']]\<rparr>"

definition frame_b :: "real \<Rightarrow> dataframe" where
  "frame_b t = \<lparr>columns = [''Diameter'', ''Perimeter'', ''Frame'', ''TimeSec'', ''TimeMin'',
                            ''SourceFile''],
      rows = [[Num 5, Num 2, Num 2, Num t, Num (t / 60), Str ''b_morphometry_results.csv'']]\<rparr>"

text \<open>The merged dataset of the sample folder, for a TimeSec \<open>t\<close> of the second file.\<close>

definition sample_merged :: "real \<Rightarrow> dataframe" where
  "sample_merged t =
     \<lparr>columns = [''Diameter'', ''Frame'', ''TimeSec'', ''TimeMin'', ''SourceFile'', ''Perimeter''],
      rows = [[Num 1, Num 1, Num 0, Num 0, Str ''a_morphometry_results.csv'', NaN],
              [Num 3, Num 1, Num 0, Num 0, Str ''a_morphometry_results.csv'', NaN],
              [Num 5, Num 2, Num t, Num (t / 60), Str ''b_morphometry_results.csv'', Num 2]]\<rparr>"

text \<open>A benchmark that measures 25 MB/s.\<close>

definition bench_slow :: bench_env where
  "bench_slow = \<lparr>open_ok = True, write_fail_at = None, t_start = 0, t_end = 4\<rparr>"


section \<open>Properties\<close>

subsection \<open>The benchmark's write loop\<close>

lemma write_chunks_ok: "write_chunks None i n w = (w + n * data_len, True)"
  by (induction n arbitrary: i w) auto

lemma write_chunks_fail:
  "k < n \<Longrightarrow> write_chunks (Some (i + k)) i n w = (w + k * data_len, False)"
proof (induction n arbitrary: i k w)
  case 0
  then show ?case by simp
next
  case (Suc n)
  show ?case
  proof (cases k)
    case 0
    then show ?thesis by simp
  next
    case (Suc j)
    with Suc.prems have "j < n" by simp
    from Suc.IH [OF this, of "Suc i" "w + data_len"] Suc show ?thesis by simp
  qed
qed

subsection \<open>The execution-mode decision\<close>

text \<open>
  Claim C3. A measured throughput below 50 MB/s gives a sequential plan
  whatever the caller asked; otherwise at most two selected columns give a
  sequential plan; otherwise the plan is parallel exactly when the caller opted
  in. A parallel plan has \<open>min cpu 8\<close> workers, a sequential one assigns none,
  and a caller who did not opt in never gets a parallel plan.
\<close>

theorem execution_plan_decision:
  "(disk_speed < 50 \<longrightarrow> \<not> use_parallel_determined disk_speed ncols use_parallel) \<and>
   (\<not> disk_speed < 50 \<and> ncols \<le> 2 \<longrightarrow> \<not> use_parallel_determined disk_speed ncols use_parallel) \<and>
   (\<not> disk_speed < 50 \<and> \<not> ncols \<le> 2 \<longrightarrow>
      use_parallel_determined disk_speed ncols use_parallel = use_parallel) \<and>
   (use_parallel_determined disk_speed ncols use_parallel \<longrightarrow>
      num_workers disk_speed ncols cpu use_parallel = Some (min cpu 8)) \<and>
   (\<not> use_parallel_determined disk_speed ncols use_parallel \<longrightarrow>
      num_workers disk_speed ncols cpu use_parallel = None) \<and>
   (\<not> use_parallel \<longrightarrow> \<not> use_parallel_determined disk_speed ncols use_parallel)"
  by (simp add: use_parallel_determined_def num_workers_def)

text \<open>The decision at a slow disk, at two columns, and at five columns with and without opt-in.\<close>

theorem execution_plan_decision_witness:
  "\<not> use_parallel_determined 40 5 True \<and>
   \<not> use_parallel_determined 60 2 True \<and>
   use_parallel_determined 60 5 True \<and>
   num_workers 60 5 16 True = Some 8 \<and>
   num_workers 60 5 4 True = Some 4 \<and>
   num_workers 60 5 16 False = None"
  using execution_plan_decision [of 40 5 True 16]
    execution_plan_decision [of 60 2 True 16]
    execution_plan_decision [of 60 5 True 16]
    execution_plan_decision [of 60 5 True 4]
    execution_plan_decision [of 60 5 False 16]
  by simp

subsection \<open>The scratch file of the benchmark\<close>

text \<open>
  Claim C4 as stated fails: when the fourth write raises, the error leaves the
  benchmark and the scratch file is still in the output folder, holding the
  three chunks written.
\<close>

theorem scratch_file_left_counterexample:
  "snd (test_disk_write_speed bench_write_fails ''disk_test.tmp'' Map.empty) = Inl OSError \<and>
   fst (test_disk_write_speed bench_write_fails ''disk_test.tmp'' Map.empty) ''disk_test.tmp''
     = Some (Scratch 3072000)"
  using write_chunks_fail [of 3 100 0 0]
  by (simp add: test_disk_write_speed_def bench_write_fails_def data_len_def)

text \<open>
  Claim C4, amended. Whenever the timed write completes, the scratch file is
  removed before the benchmark returns its throughput or raises on a zero
  elapsed time; when a write raises, the error propagates and the scratch file
  stays, holding the chunks written before.
\<close>

theorem scratch_file_removed_when_write_completes:
  "(\<forall>d. snd (test_disk_write_speed b p fs) = Inr d \<longrightarrow>
        fst (test_disk_write_speed b p fs) p = None) \<and>
   (snd (test_disk_write_speed b p fs) = Inl ZeroDivisionError \<longrightarrow>
        fst (test_disk_write_speed b p fs) p = None) \<and>
   (open_ok b \<and> write_fail_at b = Some k \<and> k < 100 \<longrightarrow>
        snd (test_disk_write_speed b p fs) = Inl OSError \<and>
        fst (test_disk_write_speed b p fs) p = Some (Scratch (k * data_len)))"
proof (intro conjI allI impI)
  fix d
  assume "snd (test_disk_write_speed b p fs) = Inr d"
  then show "fst (test_disk_write_speed b p fs) p = None"
    by (auto simp: test_disk_write_speed_def Let_def split: if_splits prod.splits bool.splits)
next
  assume "snd (test_disk_write_speed b p fs) = Inl ZeroDivisionError"
  then show "fst (test_disk_write_speed b p fs) p = None"
    by (auto simp: test_disk_write_speed_def Let_def split: if_splits prod.splits bool.splits)
next
  assume h: "open_ok b \<and> write_fail_at b = Some k \<and> k < 100"
  then have "write_chunks (write_fail_at b) 0 100 0 = (k * data_len, False)"
    using write_chunks_fail [of k 100 0 0] by simp
  with h show "snd (test_disk_write_speed b p fs) = Inl OSError"
    and "fst (test_disk_write_speed b p fs) p = Some (Scratch (k * data_len))"
    by (simp_all add: test_disk_write_speed_def)
qed

text \<open>A benchmark that completes, and one whose fourth write raises.\<close>

theorem scratch_file_removed_when_write_completes_witness:
  "snd (test_disk_write_speed bench_ok ''disk_test.tmp'' Map.empty) = Inr 100 \<and>
   fst (test_disk_write_speed bench_ok ''disk_test.tmp'' Map.empty) ''disk_test.tmp'' = None \<and>
   snd (test_disk_write_speed bench_write_fails ''disk_test.tmp'' Map.empty) = Inl OSError \<and>
   fst (test_disk_write_speed bench_write_fails ''disk_test.tmp'' Map.empty) ''disk_test.tmp''
     = Some (Scratch (3 * data_len))"
proof -
  have ok: "snd (test_disk_write_speed bench_ok ''disk_test.tmp'' Map.empty) = Inr 100"
    by (simp add: test_disk_write_speed_def bench_ok_def write_chunks_ok)
  have bad: "open_ok bench_write_fails \<and> write_fail_at bench_write_fails = Some 3 \<and> (3::nat) < 100"
    by (simp add: bench_write_fails_def)
  from scratch_file_removed_when_write_completes [of bench_ok "''disk_test.tmp''" Map.empty 3]
    scratch_file_removed_when_write_completes [of bench_write_fails "''disk_test.tmp''" Map.empty 3]
    ok bad
  show ?thesis by blast
qed

subsection \<open>Frames and times\<close>

lemma cell_of_map: "cell_of cols (map f cols) c = (if c \<in> set cols then f c else NaN)"
  by (simp add: cell_of_def map_of_zip_map)

lemma cell_of_absent: "c \<notin> set cols \<Longrightarrow> cell_of cols r c = NaN"
proof -
  assume "c \<notin> set cols"
  then have "c \<notin> fst ` set (zip cols r)" by (auto dest: set_zip_leftD)
  then have "map_of (zip cols r) c = None" by (simp add: map_of_eq_None_iff)
  then show ?thesis by (simp add: cell_of_def)
qed

lemma columns_set_col:
  "columns (set_col c v df) = (if c \<in> set (columns df) then columns df else columns df @ [c])"
  by (simp add: set_col_def Let_def)

lemma length_rows_set_col: "length (rows (set_col c v df)) = length (rows df)"
  by (simp add: set_col_def Let_def)

lemma col_values_set_col:
  "col_values (set_col c v df) c' =
     (if c' = c then replicate (length (rows df)) v else col_values df c')"
proof -
  define cols' where "cols' = (if c \<in> set (columns df) then columns df else columns df @ [c])"
  define g where "g = (\<lambda>r x. if x = c then v else cell_of (columns df) r x)"
  have c: "columns (set_col c v df) = cols'"
    and r: "rows (set_col c v df) = map (\<lambda>r. map (g r) cols') (rows df)"
    by (simp_all add: set_col_def Let_def cols'_def g_def)
  have "col_values (set_col c v df) c' = map (\<lambda>r. cell_of cols' (map (g r) cols') c') (rows df)"
    by (simp only: col_values_def c r map_map comp_def)
  also have "\<dots> = map (\<lambda>r. if c' \<in> set cols' then g r c' else NaN) (rows df)"
    by (simp only: cell_of_map)
  also have "\<dots> = (if c' = c then replicate (length (rows df)) v else col_values df c')"
    by (auto simp: cols'_def g_def col_values_def map_replicate_const cell_of_absent)
  finally show ?thesis .
qed

lemma col_values_stamp:
  "col_values (stamp t i name df) ''Frame'' = replicate (length (rows df)) (Num (real i))"
  "col_values (stamp t i name df) ''TimeSec'' = replicate (length (rows df)) (Num (real (i - 1) * t))"
  "col_values (stamp t i name df) ''TimeMin'' = replicate (length (rows df)) (Num (real (i - 1) * t / 60))"
  "col_values (stamp t i name df) ''SourceFile'' = replicate (length (rows df)) (Str name)"
  by (simp_all add: stamp_def Let_def col_values_set_col length_rows_set_col)

lemma read_files_enumerate:
  "read_files t i fs = Inr all_data \<Longrightarrow>
   map Some all_data =
     map2 (\<lambda>j f. map_option (stamp t j (fname f)) (parsed f)) [i..<i + length fs] fs"
proof (induction fs arbitrary: i all_data)
  case Nil
  then show ?case by simp
next
  case (Cons f fs)
  from Cons.prems obtain df rest where p: "parsed f = Some df"
    and r: "read_files t (Suc i) fs = Inr rest"
    and a: "all_data = stamp t i (fname f) df # rest"
    by (auto split: option.splits sum.splits if_splits)
  have "[i..<i + length (f # fs)] = i # [Suc i..<Suc i + length fs]"
    using upt_conv_Cons [of i "i + length (f # fs)"] by simp
  with Cons.IH [OF r] p a show ?case by simp
qed

lemma read_files_length: "read_files t i fs = Inr all_data \<Longrightarrow> length all_data = length fs"
  by (drule read_files_enumerate, drule arg_cong [where f = length]) simp

text \<open>
  Claim C5. The matched files are processed in sorted order of their names;
  the file at sorted position \<open>i\<close>, counted from 1, is stamped with Frame
  \<open>i\<close>, TimeSec \<open>(i - 1) * interval\<close> and TimeMin \<open>TimeSec / 60\<close> in each of its
  rows; so the frames of a run are 1 up to the number of matched files.
\<close>

theorem frames_follow_sorted_files:
  assumes "discover env = Inr csv_files"
    and "read_files time_interval 1 csv_files = Inr all_data"
  shows "csv_files \<noteq> [] \<and>
    sorted (map fname csv_files) \<and>
    mset csv_files = mset (glob (listing env)) \<and>
    map Some all_data =
      map2 (\<lambda>i f. map_option (stamp time_interval i (fname f)) (parsed f))
           [1..<Suc (length csv_files)] csv_files \<and>
    (\<forall>i name df.
       col_values (stamp time_interval i name df) ''Frame''
         = replicate (length (rows df)) (Num (real i)) \<and>
       col_values (stamp time_interval i name df) ''TimeSec''
         = replicate (length (rows df)) (Num (real (i - 1) * time_interval)) \<and>
       col_values (stamp time_interval i name df) ''TimeMin''
         = replicate (length (rows df)) (Num (real (i - 1) * time_interval / 60)))"
proof -
  from assms(1) have cf: "csv_files = sort_key fname (glob (listing env))" and ne: "csv_files \<noteq> []"
    by (auto simp: discover_def Let_def split: if_splits)
  from cf have "sorted (map fname csv_files)" and "mset csv_files = mset (glob (listing env))"
    by simp_all
  moreover from read_files_enumerate [OF assms(2)]
  have "map Some all_data =
      map2 (\<lambda>i f. map_option (stamp time_interval i (fname f)) (parsed f))
           [1..<Suc (length csv_files)] csv_files" by simp
  ultimately show ?thesis using ne by (simp add: col_values_stamp)
qed

lemma discover_sample: "discover sample_env = Inr [file_a, file_b]"
  by (simp add: discover_def sample_env_def glob_def file_a_def file_b_def endswith_def)

lemma no_overflow_zero: "\<not> division_overflows 0"
  by (simp add: division_overflows_def)

lemma no_overflow_five: "\<not> division_overflows 5" "\<not> division_overflows (- 5)"
  by (simp_all add: division_overflows_def)

lemma read_sample:
  "\<not> division_overflows t \<Longrightarrow>
   read_files t 1 [file_a, file_b] = Inr [frame_a, frame_b (real_of_int t)]"
  by (simp add: file_a_def file_b_def stamp_def set_col_def cell_of_def frame_a_def frame_b_def
        no_overflow_zero Let_def)

text \<open>The sample folder, read with an interval of five seconds.\<close>

theorem frames_follow_sorted_files_witness:
  "sorted (map fname [file_a, file_b]) \<and>
   mset [file_a, file_b] = mset (glob (listing sample_env)) \<and>
   map Some [frame_a, frame_b 5] =
      map2 (\<lambda>i f. map_option (stamp 5 i (fname f)) (parsed f)) [1..<Suc 2] [file_a, file_b] \<and>
   col_values (frame_b 5) ''TimeSec'' = [Num 5]"
  using frames_follow_sorted_files [OF discover_sample read_sample [OF no_overflow_five(1)]]
  by (simp add: col_values_def frame_b_def cell_of_def upt_conv_Cons eval_nat_numeral)


subsection \<open>The two views of the per-frame means\<close>

lemma append_last_neq:
  "zs \<noteq> [] \<Longrightarrow> ws \<noteq> [] \<Longrightarrow> last zs \<noteq> last ws \<Longrightarrow> xs @ zs \<noteq> ys @ ws"
  by (metis last_appendR)

lemma stat_names_differ:
  "a @ ''_mean'' \<noteq> b @ ''_std''" "a @ ''_mean'' \<noteq> b @ ''_sem''" "a @ ''_mean'' \<noteq> b @ ''_count''"
  "a @ ''_std'' \<noteq> b @ ''_mean''" "a @ ''_std'' \<noteq> b @ ''_sem''" "a @ ''_std'' \<noteq> b @ ''_count''"
  "a @ ''_sem'' \<noteq> b @ ''_mean''" "a @ ''_sem'' \<noteq> b @ ''_std''" "a @ ''_sem'' \<noteq> b @ ''_count''"
  "a @ ''_count'' \<noteq> b @ ''_mean''" "a @ ''_count'' \<noteq> b @ ''_std''" "a @ ''_count'' \<noteq> b @ ''_sem''"
  by (rule append_last_neq; simp)+

lemma frame_not_flat: "''Frame'' \<noteq> a @ CHR ''_'' # s"
proof
  assume "''Frame'' = a @ CHR ''_'' # s"
  then have "CHR ''_'' \<in> set ''Frame''" by (metis in_set_conv_decomp)
  then show False by simp
qed

text \<open>The labels and the values of one row of the flattened aggregation, looked up by label.\<close>

lemma flat_lookup:
  fixes h :: "string \<Rightarrow> cell list"
  defines "names sel \<equiv> map (\<lambda>(col, stat). col @ CHR ''_'' # stat)
                          (concat (map (\<lambda>c. map (\<lambda>s. (c, fst s)) stats) sel))"
    and "vals sel \<equiv> concat (map (\<lambda>c. map (\<lambda>s. snd s (h c)) stats) sel)"
  shows "map_of (zip (names sel) (vals sel)) (c @ ''_mean'') =
           (if c \<in> set sel then Some (mean (h c)) else None)"
    and "map_of (zip (names sel) (vals sel)) (c @ ''_std'') =
           (if c \<in> set sel then Some (std (h c)) else None)"
    and "map_of (zip (names sel) (vals sel)) (c @ ''_sem'') =
           (if c \<in> set sel then Some (sem (h c)) else None)"
    and "map_of (zip (names sel) (vals sel)) (c @ ''_count'') =
           (if c \<in> set sel then Some (count_stat (h c)) else None)"
  unfolding names_def vals_def
  by (induction sel; simp add: stats_def stat_names_differ)+

lemma find_key_row:
  assumes "\<And>k'. g (f k') = Some k'"
  shows "find (\<lambda>r. g r = Some k) (map f keys) = (if k \<in> set keys then Some (f k) else None)"
  using assms by (induction keys) auto

lemma row_frame_first: "row_frame (''Frame'' # cols) (Num k # r) = Some k"
  by (simp add: row_frame_def cell_of_def)

lemma flat_names_no_frame:
  "''Frame'' \<notin> set (gcolumns (flatten g))"
  by (auto simp: flatten_def frame_not_flat)

lemma grouped_stats_Inr:
  assumes "grouped_stats df sel = Inr summary"
  shows "select_grouped df sel = Inr ()"
    and "sel \<noteq> []"
    and "summary = \<lparr>columns = ''Frame'' #
            map (\<lambda>(col, stat). col @ ''_'' @ stat) (concat (map (\<lambda>c. map (\<lambda>s. (c, fst s)) stats) sel)),
          rows = map (\<lambda>k. Num k # concat (map (\<lambda>c. map (\<lambda>s. snd s (group_values df k c)) stats) sel))
                     (frame_keys df)\<rparr>"
  using assms
  by (auto simp: grouped_stats_def groupby_agg_def reset_index_def flatten_def comp_def
           split: sum.splits if_splits)

lemma average_data_Inr:
  assumes "average_data df sel = Inr avg"
  shows "select_grouped df sel = Inr ()" and "''Frame'' \<notin> set sel"
    and "avg = \<lparr>columns = ''Frame'' # sel,
          rows = map (\<lambda>k. Num k # map (\<lambda>c. mean (group_values df k c)) sel) (frame_keys df)\<rparr>"
  using assms
  by (auto simp: average_data_def groupby_mean_def reset_index_def comp_def
           split: sum.splits if_splits)

lemma at_frame_summary:
  assumes "grouped_stats df sel = Inr summary" and "k \<in> set (frame_keys df)" and "c \<in> set sel"
  shows "at_frame summary k (c @ ''_mean'') = Some (mean (group_values df k c))"
    and "at_frame summary k (c @ ''_std'') = Some (std (group_values df k c))"
    and "at_frame summary k (c @ ''_sem'') = Some (sem (group_values df k c))"
    and "at_frame summary k (c @ ''_count'') = Some (count_stat (group_values df k c))"
  using assms(2,3) 
  by (simp_all add: grouped_stats_Inr(3) [OF assms(1)] at_frame_def find_key_row row_frame_first
        frame_not_flat [symmetric] flat_lookup)

lemma at_frame_average:
  assumes "average_data df sel = Inr avg" and "k \<in> set (frame_keys df)" and "c \<in> set sel"
  shows "at_frame avg k c = Some (mean (group_values df k c))"
proof -
  from assms(3) average_data_Inr(2) [OF assms(1)] have "c \<noteq> ''Frame''" by auto
  with assms(2,3) show ?thesis
    by (simp add: average_data_Inr(3) [OF assms(1)] at_frame_def find_key_row row_frame_first
          map_of_zip_map)
qed




lemma grouped_stats_defined:
  "select_grouped df sel = Inr () \<Longrightarrow> sel \<noteq> [] \<Longrightarrow> \<exists>summary. grouped_stats df sel = Inr summary"
  by (simp add: grouped_stats_def groupby_agg_def reset_index_def flat_names_no_frame)

text \<open>
  Claim C2. For every merged dataset, every frame and every selected column,
  the value of the mean-only table equals the value of the column
  \<open>c_mean\<close> of the flattened statistics table; for a frame of the dataset it is
  the mean of the group, and both tables list the same frames.
\<close>

theorem mean_views_agree:
  assumes "average_data df sel = Inr avg"
    and "grouped_stats df sel = Inr summary"
    and "c \<in> set sel"
  shows "at_frame avg k c = at_frame summary k (c @ ''_mean'') \<and>
    (k \<in> set (frame_keys df) \<longrightarrow> at_frame avg k c = Some (mean (group_values df k c))) \<and>
    col_values avg ''Frame'' = map Num (frame_keys df) \<and>
    col_values summary ''Frame'' = map Num (frame_keys df)"
proof (intro conjI impI)
  show "at_frame avg k c = at_frame summary k (c @ ''_mean'')"
  proof (cases "k \<in> set (frame_keys df)")
    case True
    with at_frame_average [OF assms(1) True assms(3)] at_frame_summary(1) [OF assms(2) True assms(3)]
    show ?thesis by simp
  next
    case False
    then show ?thesis
      by (simp add: average_data_Inr(3) [OF assms(1)] grouped_stats_Inr(3) [OF assms(2)]
            at_frame_def find_key_row row_frame_first)
  qed
next
  assume "k \<in> set (frame_keys df)"
  from at_frame_average [OF assms(1) this assms(3)]
  show "at_frame avg k c = Some (mean (group_values df k c))" .
next
  show "col_values avg ''Frame'' = map Num (frame_keys df)"
    by (simp add: average_data_Inr(3) [OF assms(1)] col_values_def cell_of_def comp_def)
next
  show "col_values summary ''Frame'' = map Num (frame_keys df)"
    by (simp add: grouped_stats_Inr(3) [OF assms(2)] col_values_def cell_of_def comp_def)
qed

subsection \<open>Standard deviation and standard error\<close>


lemma welford_count: "fst (foldl welford s vs) = fst s + length vs"
  by (induction vs arbitrary: s) (simp_all add: welford_def Let_def split: prod.splits)









lemma keys_sample: "frame_keys (sample_merged t) = [1, 2]"
  by (simp add: frame_keys_def sample_merged_def List.map_filter_def row_frame_def cell_of_def)

lemma select_sample: "select_grouped (sample_merged t) [''Diameter''] = Inr ()"
  by (simp add: select_grouped_def missing_cols_def sample_merged_def is_numeric_def
        col_values_def cell_of_def)

lemma group_sample:
  "group_values (sample_merged t) 1 ''Diameter'' = [Num 1, Num 3]"
  "group_values (sample_merged t) 2 ''Diameter'' = [Num 5]"
  by (simp_all add: group_values_def sample_merged_def row_frame_def cell_of_def)

lemma average_sample:
  "average_data (sample_merged t) [''Diameter''] =
     Inr \<lparr>columns = [''Frame'', ''Diameter''], rows = [[Num 1, Num 2], [Num 2, Num 5]]\<rparr>"
  by (simp add: average_data_def groupby_mean_def select_sample reset_index_def keys_sample
        group_sample mean_def notna_def)

text \<open>The two views of the sample dataset agree on the means of Diameter.\<close>

theorem mean_views_agree_witness:
  "\<exists>summary. grouped_stats (sample_merged 5) [''Diameter''] = Inr summary \<and>
     at_frame summary 1 ''Diameter_mean'' = Some (Num 2) \<and>
     at_frame summary 2 ''Diameter_mean'' = Some (Num 5) \<and>
     col_values summary ''Frame'' = [Num 1, Num 2]"
proof -
  from grouped_stats_defined [OF select_sample]
  obtain summary where s: "grouped_stats (sample_merged 5) [''Diameter''] = Inr summary" by auto
  have c: "''Diameter'' \<in> set [''Diameter'']" by simp
  have "at_frame \<lparr>columns = [''Frame'', ''Diameter''], rows = [[Num 1, Num 2], [Num 2, Num 5]]\<rparr>
          k ''Diameter'' = (if k = 1 then Some (Num 2) else if k = 2 then Some (Num 5) else None)" for k
    by (simp add: at_frame_def row_frame_def cell_of_def)
  with mean_views_agree [OF average_sample s c, of 1] mean_views_agree [OF average_sample s c, of 2] s
  show ?thesis by (auto simp: keys_sample)
qed



subsection \<open>The run as a whole\<close>

lemma raw_name_not_summary:
  "p @ ''_raw_data_'' @ ts @ ''.csv'' \<noteq> p @ ''_summary_stats_'' @ ts @ ''.csv''"
proof
  assume "p @ ''_raw_data_'' @ ts @ ''.csv'' = p @ ''_summary_stats_'' @ ts @ ''.csv''"
  then have "length (p @ ''_raw_data_'' @ ts @ ''.csv'') = length (p @ ''_summary_stats_'' @ ts @ ''.csv'')"
    by (rule arg_cong)
  then show False by simp
qed

lemma raw_name_not_chart:
  "p @ ''_raw_data_'' @ ts @ ''.csv'' \<noteq> p @ ''_metrics_vs_frame.png''"
proof
  assume "p @ ''_raw_data_'' @ ts @ ''.csv'' = p @ ''_metrics_vs_frame.png''"
  then have "last (p @ ''_raw_data_'' @ ts @ ''.csv'') = last (p @ ''_metrics_vs_frame.png'')"
    by (rule arg_cong)
  then show False by simp
qed

lemma average_data_select:
  assumes "average_data df sel = Inr avg"
  shows "missing_cols df sel = []"
    and "sel \<noteq> [] \<Longrightarrow> \<exists>s. grouped_stats df sel = Inr s"
    and "sel = [] \<Longrightarrow> grouped_stats df sel = Inl (ValueError NoObjects)"
  using average_data_Inr(1) [OF assms] grouped_stats_defined [of df sel]
  by (auto simp: select_grouped_def grouped_stats_def groupby_agg_def split: if_splits)

text \<open>
  How a run ends once the files are merged: in the error of the first
  group-by, in the error of the aggregation over no column, or well.
\<close>

lemma analyse_outcome:
  "snd (snd (analyse p sel t ts d c df fs con)) =
     (case average_data df sel of
        Inl e \<Rightarrow> Inl e
      | Inr avg \<Rightarrow> if sel = [] then Inl (ValueError NoObjects) else Inr ())"
proof (cases "average_data df sel")
  case (Inl e)
  then show ?thesis by (simp add: analyse_def write_raw_def)
next
  case (Inr avg)
  note sel = average_data_select [OF this]
  show ?thesis
  proof (cases "sel = []")
    case True
    with Inr sel(1) sel(3) show ?thesis by (simp add: analyse_def write_raw_def Let_def)
  next
    case False
    with sel(2) obtain s where "grouped_stats df sel = Inr s" by blast
    with Inr sel(1) False show ?thesis by (simp add: analyse_def write_raw_def Let_def)
  qed
qed

lemma analyse_raw:
  "fst (analyse p sel t ts d c df fs con) (p @ ''_raw_data_'' @ ts @ ''.csv'') =
     Some (Csv (to_csv True df @ to_csv False (separator df) @
                (case average_data df sel of Inl e \<Rightarrow> [] | Inr avg \<Rightarrow> to_csv True avg)))"
proof (cases "average_data df sel")
  case (Inl e)
  then show ?thesis by (simp add: analyse_def write_raw_def)
next
  case (Inr avg)
  note sel = average_data_select [OF this]
  show ?thesis
  proof (cases "sel = []")
    case True
    with Inr sel(1) sel(3) show ?thesis by (simp add: analyse_def write_raw_def Let_def)
  next
    case False
    with sel(2) obtain s where "grouped_stats df sel = Inr s" by blast
    with Inr sel(1) show ?thesis
      using raw_name_not_summary [of p ts] raw_name_not_chart [of p ts]
      by (simp add: analyse_def write_raw_def Let_def plot_lines_with_options_def)
  qed
qed

lemma analyse_independent:
  "fst (analyse p sel t ts d c df fs con) = fst (analyse p sel t ts d' c' df fs con')"
  "snd (snd (analyse p sel t ts d c df fs con)) = snd (snd (analyse p sel t ts d' c' df fs con'))"
  by (simp_all add: analyse_def Let_def split: prod.splits sum.splits)

lemma benchmark_Inr:
  "snd (test_disk_write_speed b p fs) = Inr d \<Longrightarrow> test_disk_write_speed b p fs = (fs(p := None), Inr d)"
  by (auto simp: test_disk_write_speed_def Let_def split: if_splits prod.splits bool.splits)

lemma run_success:
  assumes "discover env = Inr csv_files"
    and "snd (test_disk_write_speed (bench env) ''disk_test.tmp'' fs) = Inr d"
    and "read_files t 1 csv_files = Inr all_data"
  shows "reindex_and_analyze env sel t up ts fs =
     analyse (in_name env) sel t ts d (cpu_load env)
       (fst (coerce (parse_float env) sel (concat_frames all_data))) (fs(''disk_test.tmp'' := None))
       (plan_messages d (length sel) (cpu_count env) up
        @ snd (coerce (parse_float env) sel (concat_frames all_data)))"
  using assms(1,3) benchmark_Inr [OF assms(2)]
  by (simp add: reindex_and_analyze_def Let_def)

text \<open>
  Claim C10. The output folder after the run (the raw artifact, the summary
  artifact and the chart) and the outcome of the run are the same whether the
  caller opts in to parallel execution or not: the flag reaches the console
  only, and the files are read one after the other in sorted order either way.
\<close>

theorem parallel_flag_only_console:
  "fst (reindex_and_analyze env sel t True ts fs) = fst (reindex_and_analyze env sel t False ts fs) \<and>
   snd (snd (reindex_and_analyze env sel t True ts fs))
     = snd (snd (reindex_and_analyze env sel t False ts fs))"
  using analyse_independent
  by (auto simp: reindex_and_analyze_def Let_def split: sum.splits prod.splits)

lemma sort_key_permutation:
  assumes "mset xs = mset ys" and "inj_on f (set xs)"
  shows "sort_key f xs = sort_key f ys"
  by (rule sort_key_inj_key_eq) (use assms in simp_all)

lemma discover_permutation:
  assumes "mset l' = mset (listing env)" and "distinct (map fname (listing env))"
  shows "discover (env\<lparr>listing := l', bench := b', cpu_count := n', cpu_load := c'\<rparr>) = discover env"
proof -
  from assms(1) have "mset (glob (listing env)) = mset (glob l')" by (simp add: glob_def)
  moreover from assms(2) have "inj_on fname (set (glob (listing env)))"
    by (auto simp: glob_def distinct_map intro: inj_on_subset)
  ultimately have "sort_key fname (glob (listing env)) = sort_key fname (glob l')"
    by (rule sort_key_permutation)
  then show ?thesis by (simp add: discover_def)
qed

text \<open>
  Claim C7. Two runs on the same files with the same selection, interval and
  time stamp leave the same output folder and end the same way, whatever
  throughput the benchmark measured, whatever the CPU count and load, and in
  whatever order the system lists the files.
\<close>

theorem artifacts_deterministic:
  assumes "mset l' = mset (listing env)"
    and "distinct (map fname (listing env))"
    and "snd (test_disk_write_speed (bench env) ''disk_test.tmp'' fs) = Inr d"
    and "snd (test_disk_write_speed b' ''disk_test.tmp'' fs) = Inr d'"
  shows "fst (reindex_and_analyze (env\<lparr>listing := l', bench := b', cpu_count := n', cpu_load := c'\<rparr>)
               sel t up ts fs)
           = fst (reindex_and_analyze env sel t up ts fs) \<and>
         snd (snd (reindex_and_analyze (env\<lparr>listing := l', bench := b', cpu_count := n', cpu_load := c'\<rparr>)
               sel t up ts fs))
           = snd (snd (reindex_and_analyze env sel t up ts fs))"
proof -
  let ?env' = "env\<lparr>listing := l', bench := b', cpu_count := n', cpu_load := c'\<rparr>"
  note d = discover_permutation [OF assms(1,2), where b' = b' and n' = n' and c' = c']
  note b = benchmark_Inr [OF assms(3)] benchmark_Inr [OF assms(4)]
  show ?thesis
  proof (cases "discover env")
    case (Inl e)
    with d show ?thesis by (simp add: reindex_and_analyze_def)
  next
    case (Inr csv_files)
    show ?thesis
    proof (cases "read_files t 1 csv_files")
      case (Inl e)
      with Inr d b show ?thesis by (simp add: reindex_and_analyze_def Let_def)
    next
      case r: (Inr all_data)
      from Inr d have d': "discover ?env' = Inr csv_files" by simp
      have b': "snd (test_disk_write_speed (bench ?env') ''disk_test.tmp'' fs) = Inr d'"
        using assms(4) by simp
      show ?thesis
        unfolding run_success [OF Inr assms(3) r] run_success [OF d' b' r]
        using analyse_independent by simp
    qed
  qed
qed


lemma benchmark_sample:
  "snd (test_disk_write_speed (bench sample_env) p fs) = Inr 100"
  "snd (test_disk_write_speed bench_slow p fs) = Inr 25"
  by (simp_all add: test_disk_write_speed_def sample_env_def bench_ok_def bench_slow_def
        write_chunks_ok)

lemma concat_sample: "concat_frames [frame_a, frame_b t] = sample_merged t"
  by (simp add: concat_frames_def union_columns_def frame_a_def frame_b_def sample_merged_def
        cell_of_def)

lemma numeric_columns_sample:
  "numeric_columns (sample_merged t) [''Diameter'']
     = [''Diameter'', ''Frame'', ''TimeSec'', ''TimeMin'', ''Perimeter'']"
  "numeric_columns (sample_merged t) [''Area'']
     = [''Diameter'', ''Frame'', ''TimeSec'', ''TimeMin'', ''Perimeter'']"
  by (simp_all add: numeric_columns_def add_present_def sample_merged_def is_numeric_def
        col_values_def cell_of_def)

lemma coerce_column_sample:
  "c \<in> set [''Diameter'', ''Frame'', ''TimeSec'', ''TimeMin'', ''Perimeter''] \<Longrightarrow>
   coerce_column parse c (sample_merged t, con) = (sample_merged t, con)"
  by (auto simp: coerce_column_def to_numeric_def put_col_def sample_merged_def col_values_def
        cell_of_def)

lemma coerce_sample:
  "coerce parse [''Diameter''] (sample_merged t) = (sample_merged t, [])"
  "coerce parse [''Area''] (sample_merged t) = (sample_merged t, [])"
  by (simp_all add: coerce_def numeric_columns_sample coerce_column_sample)

text \<open>The column of file names does not convert and stays as it is, with a warning.\<close>

lemma coerce_sample_names:
  "coerce (\<lambda>s. None) [''SourceFile''] (sample_merged t)
     = (sample_merged t, [CoercionWarning ''SourceFile''])"
proof -
  have n: "numeric_columns (sample_merged t) [''SourceFile'']
     = [''Diameter'', ''Frame'', ''TimeSec'', ''TimeMin'', ''Perimeter'', ''SourceFile'']"
    by (simp add: numeric_columns_def add_present_def sample_merged_def is_numeric_def
          col_values_def cell_of_def)
  have c: "coerce_column (\<lambda>s. None) ''SourceFile'' (sample_merged t, [])
     = (sample_merged t, [CoercionWarning ''SourceFile''])"
    by (simp add: coerce_column_def to_numeric_def sample_merged_def col_values_def cell_of_def)
  show ?thesis by (simp add: coerce_def n coerce_column_sample c)
qed

lemma run_sample:
  assumes "\<not> division_overflows t"
  shows "reindex_and_analyze sample_env [''Diameter''] t up ts fs =
     analyse ''R2'' [''Diameter''] t ts 100 10 (sample_merged (real_of_int t))
       (fs(''disk_test.tmp'' := None)) (plan_messages 100 1 4 up)"
    and "reindex_and_analyze sample_env [''Area''] t up ts fs =
     analyse ''R2'' [''Area''] t ts 100 10 (sample_merged (real_of_int t))
       (fs(''disk_test.tmp'' := None)) (plan_messages 100 1 4 up)"
    and "reindex_and_analyze sample_env [''SourceFile''] t up ts fs =
     analyse ''R2'' [''SourceFile''] t ts 100 10 (sample_merged (real_of_int t))
       (fs(''disk_test.tmp'' := None))
       (plan_messages 100 1 4 up @ [CoercionWarning ''SourceFile''])"
proof -
  have p: "parse_float sample_env = (\<lambda>s. None)" and n: "in_name sample_env = ''R2''"
    and c: "cpu_count sample_env = 4" and l: "cpu_load sample_env = 10"
    by (simp_all add: sample_env_def)
  note run = run_success [OF discover_sample benchmark_sample(1) read_sample [OF assms]]
  show "reindex_and_analyze sample_env [''Diameter''] t up ts fs =
     analyse ''R2'' [''Diameter''] t ts 100 10 (sample_merged (real_of_int t))
       (fs(''disk_test.tmp'' := None)) (plan_messages 100 1 4 up)"
    by (simp add: run concat_sample coerce_sample n c l)
  show "reindex_and_analyze sample_env [''Area''] t up ts fs =
     analyse ''R2'' [''Area''] t ts 100 10 (sample_merged (real_of_int t))
       (fs(''disk_test.tmp'' := None)) (plan_messages 100 1 4 up)"
    by (simp add: run concat_sample coerce_sample n c l)
  show "reindex_and_analyze sample_env [''SourceFile''] t up ts fs =
     analyse ''R2'' [''SourceFile''] t ts 100 10 (sample_merged (real_of_int t))
       (fs(''disk_test.tmp'' := None))
       (plan_messages 100 1 4 up @ [CoercionWarning ''SourceFile''])"
    by (simp add: run concat_sample p coerce_sample_names n c l)
qed

lemma run_five:
  "reindex_and_analyze sample_env [''Diameter''] 5 up ts fs =
     analyse ''R2'' [''Diameter''] 5 ts 100 10 (sample_merged 5)
       (fs(''disk_test.tmp'' := None)) (plan_messages 100 1 4 up)"
  "reindex_and_analyze sample_env [''Area''] 5 up ts fs =
     analyse ''R2'' [''Area''] 5 ts 100 10 (sample_merged 5)
       (fs(''disk_test.tmp'' := None)) (plan_messages 100 1 4 up)"
  "reindex_and_analyze sample_env [''SourceFile''] 5 up ts fs =
     analyse ''R2'' [''SourceFile''] 5 ts 100 10 (sample_merged 5)
       (fs(''disk_test.tmp'' := None))
       (plan_messages 100 1 4 up @ [CoercionWarning ''SourceFile''])"
  "reindex_and_analyze sample_env [''Diameter''] (- 5) up ts fs =
     analyse ''R2'' [''Diameter''] (- 5) ts 100 10 (sample_merged (- 5))
       (fs(''disk_test.tmp'' := None)) (plan_messages 100 1 4 up)"
  using run_sample [OF no_overflow_five(1), of up ts fs]
    run_sample(1) [OF no_overflow_five(2), of up ts fs]
  by simp_all

lemma read_five: "read_files 5 1 [file_a, file_b] = Inr [frame_a, frame_b 5]"
  using read_sample [OF no_overflow_five(1)] by simp

text \<open>
  Claim C8, amended. After a run that completes, the raw artifact holds, in
  order, the header and the rows of the merged dataset, one separator line
  with the string NaN in every field, and the header and the rows of the
  mean-only table, whose columns are Frame and the selected columns.
\<close>

theorem raw_artifact_three_sections:
  assumes "discover env = Inr csv_files"
    and "read_files t 1 csv_files = Inr all_data"
    and "df_all = fst (coerce (parse_float env) sel (concat_frames all_data))"
    and "snd (snd (reindex_and_analyze env sel t up ts fs)) = Inr ()"
  shows "\<exists>avg. average_data df_all sel = Inr avg \<and> columns avg = ''Frame'' # sel \<and>
    fst (reindex_and_analyze env sel t up ts fs) (in_name env @ ''_raw_data_'' @ ts @ ''.csv'') =
      Some (Csv ((map Str (columns df_all) # rows df_all)
                 @ [replicate (length (columns df_all)) (Str ''NaN'')]
                 @ (map Str (columns avg) # rows avg)))"
proof -
  from assms(1,2,4) obtain d where
    b: "snd (test_disk_write_speed (bench env) ''disk_test.tmp'' fs) = Inr d"
    by (cases "snd (test_disk_write_speed (bench env) ''disk_test.tmp'' fs)")
       (auto simp: reindex_and_analyze_def split: prod.splits sum.splits)
  note run = run_success [OF assms(1) b assms(2), of sel up ts, folded assms(3)]
  from assms(4) obtain avg where avg: "average_data df_all sel = Inr avg"
    unfolding run analyse_outcome by (cases "average_data df_all sel") auto
  from average_data_Inr(3) [OF avg] have "columns avg = ''Frame'' # sel" by simp
  with avg show ?thesis
    unfolding run analyse_raw by (simp add: to_csv_def separator_def)
qed

text \<open>The raw artifact of the sample run.\<close>

theorem raw_artifact_three_sections_witness:
  "fst (reindex_and_analyze sample_env [''Diameter''] 5 False ''T'' Map.empty) ''R2_raw_data_T.csv'' =
     Some (Csv [[Str ''Diameter'', Str ''Frame'', Str ''TimeSec'', Str ''TimeMin'',
                 Str ''SourceFile'', Str ''Perimeter''],
                [Num 1, Num 1, Num 0, Num 0, Str ''a_morphometry_results.csv'', NaN],
                [Num 3, Num 1, Num 0, Num 0, Str ''a_morphometry_results.csv'', NaN],
                [Num 5, Num 2, Num 5, Num (1 / 12), Str ''b_morphometry_results.csv'', Num 2],
                [Str ''NaN'', Str ''NaN'', Str ''NaN'', Str ''NaN'', Str ''NaN'', Str ''NaN''],
                [Str ''Frame'', Str ''Diameter''],
                [Num 1, Num 2],
                [Num 2, Num 5]])"
proof -
  have m: "sample_merged 5 = fst (coerce (parse_float sample_env) [''Diameter'']
                                   (concat_frames [frame_a, frame_b 5]))"
    by (simp add: concat_sample coerce_sample)
  have ok: "snd (snd (reindex_and_analyze sample_env [''Diameter''] 5 False ''T'' Map.empty)) = Inr ()"
    by (simp add: run_five analyse_outcome average_sample)
  have n: "in_name sample_env = ''R2''" by (simp add: sample_env_def)
  from raw_artifact_three_sections [OF discover_sample read_five m ok]
  obtain avg where a: "average_data (sample_merged 5) [''Diameter''] = Inr avg"
    and r: "fst (reindex_and_analyze sample_env [''Diameter''] 5 False ''T'' Map.empty)
           (in_name sample_env @ ''_raw_data_'' @ ''T'' @ ''.csv'') =
         Some (Csv ((map Str (columns (sample_merged 5)) # rows (sample_merged 5))
                    @ [replicate (length (columns (sample_merged 5))) (Str ''NaN'')]
                    @ (map Str (columns avg) # rows avg)))"
    by blast
  from a have "avg = \<lparr>columns = [''Frame'', ''Diameter''], rows = [[Num 1, Num 2], [Num 2, Num 5]]\<rparr>"
    by (simp add: average_sample)
  with r show ?thesis by (simp add: n sample_merged_def)
qed

text \<open>
  Claim C8 as stated fails: with the column of file names selected, the run
  ends in the TypeError of the group-by that computes the averages, and the
  raw artifact is left with the merged data and the separator only.
\<close>

theorem raw_artifact_two_sections_counterexample:
  "snd (snd (reindex_and_analyze sample_env [''SourceFile''] 5 False ''T'' Map.empty))
     = Inl TypeError \<and>
   fst (reindex_and_analyze sample_env [''SourceFile''] 5 False ''T'' Map.empty)
       ''R2_raw_data_T.csv'' =
     Some (Csv [[Str ''Diameter'', Str ''Frame'', Str ''TimeSec'', Str ''TimeMin'',
                 Str ''SourceFile'', Str ''Perimeter''],
                [Num 1, Num 1, Num 0, Num 0, Str ''a_morphometry_results.csv'', NaN],
                [Num 3, Num 1, Num 0, Num 0, Str ''a_morphometry_results.csv'', NaN],
                [Num 5, Num 2, Num 5, Num (1 / 12), Str ''b_morphometry_results.csv'', Num 2],
                [Str ''NaN'', Str ''NaN'', Str ''NaN'', Str ''NaN'', Str ''NaN'', Str ''NaN'']])"
proof -
  have a: "average_data (sample_merged 5) [''SourceFile''] = Inl TypeError"
    by (simp add: average_data_def groupby_mean_def select_grouped_def missing_cols_def
          sample_merged_def is_numeric_def col_values_def cell_of_def)
  have "fst (analyse ''R2'' [''SourceFile''] 5 ''T'' d c (sample_merged 5) fs con)
          ''R2_raw_data_T.csv'' =
     Some (Csv (to_csv True (sample_merged 5) @ to_csv False (separator (sample_merged 5))))"
    for d c fs con
    using analyse_raw [of "''R2''" "[''SourceFile'']" 5 "''T''" d c "sample_merged 5" fs con]
    by (simp add: a)
  then show ?thesis
    unfolding run_five analyse_outcome a
    by (simp add: to_csv_def separator_def sample_merged_def)
qed

lemma raw_sample:
  "fst (analyse ''R2'' [''Diameter''] t ''T'' d c (sample_merged u) fs con) ''R2_raw_data_T.csv'' =
     Some (Csv (to_csv True (sample_merged u) @ to_csv False (separator (sample_merged u)) @
                [[Str ''Frame'', Str ''Diameter''], [Num 1, Num 2], [Num 2, Num 5]]))"
  using analyse_raw [of "''R2''" "[''Diameter'']" t "''T''" d c "sample_merged u" fs con]
  by (simp add: average_sample to_csv_def)

lemma average_missing:
  "average_data (sample_merged t) [''Area''] = Inl (KeyError [''Area''])"
  by (simp add: average_data_def groupby_mean_def select_grouped_def missing_cols_def
        sample_merged_def)

text \<open>
  Claim C1 on the code. With the column Area selected and in none of the
  files, the run ends in the KeyError of the group-by that computes the
  averages for the raw artifact, which by then holds the merged data and the
  separator; the check that raises the ValueError with the list of missing
  columns comes after it.
\<close>

theorem missing_column_raises_key_error:
  "snd (snd (reindex_and_analyze sample_env [''Area''] 5 False ''T'' Map.empty))
     = Inl (KeyError [''Area'']) \<and>
   fst (reindex_and_analyze sample_env [''Area''] 5 False ''T'' Map.empty) ''R2_raw_data_T.csv'' =
     Some (Csv [[Str ''Diameter'', Str ''Frame'', Str ''TimeSec'', Str ''TimeMin'',
                 Str ''SourceFile'', Str ''Perimeter''],
                [Num 1, Num 1, Num 0, Num 0, Str ''a_morphometry_results.csv'', NaN],
                [Num 3, Num 1, Num 0, Num 0, Str ''a_morphometry_results.csv'', NaN],
                [Num 5, Num 2, Num 5, Num (1 / 12), Str ''b_morphometry_results.csv'', Num 2],
                [Str ''NaN'', Str ''NaN'', Str ''NaN'', Str ''NaN'', Str ''NaN'', Str ''NaN'']])"
proof -
  have "fst (analyse ''R2'' [''Area''] 5 ''T'' d c (sample_merged 5) fs con) ''R2_raw_data_T.csv'' =
     Some (Csv (to_csv True (sample_merged 5) @ to_csv False (separator (sample_merged 5))))"
    for d c fs con
    using analyse_raw [of "''R2''" "[''Area'']" 5 "''T''" d c "sample_merged 5" fs con]
    by (simp add: average_missing)
  then show ?thesis
    unfolding run_five analyse_outcome average_missing
    by (simp add: to_csv_def separator_def sample_merged_def)
qed

text \<open>No run ends in the ValueError of the check for missing columns.\<close>

lemma missing_columns_never_value_error:
  "snd (snd (reindex_and_analyze env sel t up ts fs)) \<noteq> Inl (ValueError (ColumnsNotFound m))"
proof (cases "discover env")
  case (Inl e)
  then show ?thesis
    by (auto simp: reindex_and_analyze_def discover_def Let_def split: if_splits)
next
  case d: (Inr csv_files)
  show ?thesis
  proof (cases "snd (test_disk_write_speed (bench env) ''disk_test.tmp'' fs)")
    case (Inl e)
    with d show ?thesis
      by (auto simp: reindex_and_analyze_def test_disk_write_speed_def Let_def
               split: if_splits prod.splits bool.splits)
  next
    case b: (Inr speed)
    show ?thesis
    proof (cases "read_files t 1 csv_files")
      case (Inl e)
      have "read_files t i fs' = Inl e' \<Longrightarrow> (\<exists>n. e' = ParserError n) \<or> e' = OverflowError"
        for i fs' e'
        by (induction fs' arbitrary: i) (auto split: option.splits sum.splits if_splits)
      with Inl d benchmark_Inr [OF b] show ?thesis
        by (auto simp: reindex_and_analyze_def Let_def)
    next
      case r: (Inr all_data)
      show ?thesis
        unfolding run_success [OF d b r] analyse_outcome
        by (auto simp: average_data_def groupby_mean_def select_grouped_def reset_index_def
                 split: sum.splits if_splits)
    qed
  qed
qed

text \<open>
  Claim C9 as stated fails: the sample run with an interval of minus five
  seconds completes, and its second frame has TimeSec \<open>-5\<close>.
\<close>

theorem negative_interval_accepted_counterexample:
  "(- 5 :: int) \<le> 0 \<and>
   snd (snd (reindex_and_analyze sample_env [''Diameter''] (- 5) False ''T'' Map.empty)) = Inr () \<and>
   fst (reindex_and_analyze sample_env [''Diameter''] (- 5) False ''T'' Map.empty)
       ''R2_raw_data_T.csv'' =
     Some (Csv [[Str ''Diameter'', Str ''Frame'', Str ''TimeSec'', Str ''TimeMin'',
                 Str ''SourceFile'', Str ''Perimeter''],
                [Num 1, Num 1, Num 0, Num 0, Str ''a_morphometry_results.csv'', NaN],
                [Num 3, Num 1, Num 0, Num 0, Str ''a_morphometry_results.csv'', NaN],
                [Num 5, Num 2, Num (- 5), Num (- (1 / 12)), Str ''b_morphometry_results.csv'', Num 2],
                [Str ''NaN'', Str ''NaN'', Str ''NaN'', Str ''NaN'', Str ''NaN'', Str ''NaN''],
                [Str ''Frame'', Str ''Diameter''],
                [Num 1, Num 2],
                [Num 2, Num 5]])"
  unfolding run_five analyse_outcome average_sample raw_sample
  by (simp add: to_csv_def separator_def sample_merged_def)

text \<open>The sample run with and without the opt-in.\<close>

theorem parallel_flag_only_console_witness:
  "fst (reindex_and_analyze sample_env [''Diameter''] 5 True ''T'' Map.empty)
     = fst (reindex_and_analyze sample_env [''Diameter''] 5 False ''T'' Map.empty) \<and>
   snd (snd (reindex_and_analyze sample_env [''Diameter''] 5 True ''T'' Map.empty)) = Inr ()"
  using parallel_flag_only_console [of sample_env "[''Diameter'']" 5 "''T''" Map.empty]
  by (simp add: run_five(1) [of False] analyse_outcome average_sample)

text \<open>
  The sample run against one with the files listed in the other order, a slow
  disk, sixteen CPUs and a load of ninety percent.
\<close>

theorem artifacts_deterministic_witness:
  "fst (reindex_and_analyze
          (sample_env\<lparr>listing := [file_a, file_b], bench := bench_slow, cpu_count := 16,
                       cpu_load := 90\<rparr>)
          [''Diameter''] 5 False ''T'' Map.empty)
     = fst (reindex_and_analyze sample_env [''Diameter''] 5 False ''T'' Map.empty) \<and>
   snd (snd (reindex_and_analyze
          (sample_env\<lparr>listing := [file_a, file_b], bench := bench_slow, cpu_count := 16,
                       cpu_load := 90\<rparr>)
          [''Diameter''] 5 False ''T'' Map.empty)) = Inr ()"
proof -
  have p: "mset [file_a, file_b] = mset (listing sample_env)"
    by (simp add: sample_env_def)
  have d: "distinct (map fname (listing sample_env))"
    by (simp add: sample_env_def file_a_def file_b_def)
  from artifacts_deterministic [OF p d benchmark_sample(1) benchmark_sample(2),
      where n' = 16 and c' = 90 and sel = "[''Diameter'']" and t = 5 and up = False and ts = "''T''"]
  show ?thesis by (simp add: run_five(1) [of False] analyse_outcome average_sample)
qed

subsection \<open>The interval is not validated\<close>

lemma no_overflow_earlier:
  assumes "j \<le> n" and "\<not> division_overflows (int n * t)"
  shows "\<not> division_overflows (int j * t)"
proof -
  from assms(1) have "\<bar>real_of_int (int j * t)\<bar> \<le> \<bar>real_of_int (int n * t)\<bar>"
    by (simp add: abs_mult mult_right_mono)
  then have "\<bar>real_of_int (int j * t)\<bar> / 60 \<le> \<bar>real_of_int (int n * t)\<bar> / 60"
    by (simp add: divide_right_mono)
  with assms(2) show ?thesis unfolding division_overflows_def by linarith
qed

lemma read_files_proceeds:
  assumes "\<forall>f\<in>set fs. parsed f \<noteq> None"
    and "\<forall>j<length fs. \<not> division_overflows (int (i + j - 1) * t)"
  shows "\<exists>all_data. read_files t i fs = Inr all_data"
  using assms
proof (induction fs arbitrary: i)
  case Nil
  show ?case by simp
next
  case (Cons f fs)
  from Cons.prems(1) obtain df where p: "parsed f = Some df" by auto
  from Cons.prems(2) have o: "\<not> division_overflows (int (i - 1) * t)" by force
  have "\<forall>j<length fs. \<not> division_overflows (int (Suc i + j - 1) * t)"
  proof (intro allI impI)
    fix j
    assume "j < length fs"
    then have "Suc j < length (f # fs)" by simp
    with Cons.prems(2) have "\<not> division_overflows (int (i + Suc j - 1) * t)" by blast
    then show "\<not> division_overflows (int (Suc i + j - 1) * t)" by simp
  qed
  with Cons.IH [of "Suc i"] Cons.prems(1) obtain rest where "read_files t (Suc i) fs = Inr rest"
    by auto
  with p o show ?case by simp
qed

text \<open>An interval of \<open>10 ^ 400\<close> seconds is too much for the TimeMin of the second file.\<close>

lemma huge_interval_overflows: "read_files (10 ^ 400) 1 [file_a, file_b] = Inl OverflowError"
proof -
  have "(2::real) ^ 1024 \<le> 10 ^ 400 / 60"
    by simp
  then have "division_overflows (10 ^ 400)"
    by (simp add: division_overflows_def)
  then show ?thesis
    by (simp add: file_a_def file_b_def no_overflow_zero)
qed

text \<open>
  Claim C9, amended. The frame interval is not validated to be positive: an
  invocation with a non-positive interval is not rejected. Whatever the sign
  of the interval, when the folders, the files and the benchmark are in order
  and TimeSec / 60 of the last file is within the range of a float, the
  pipeline proceeds to assign TimeSec \<open>(i - 1) * interval\<close> and TimeMin
  \<open>TimeSec / 60\<close> to the file at sorted position \<open>i\<close> and goes on to the analysis
  of the merged frames.
\<close>

theorem interval_not_validated:
  assumes "discover env = Inr csv_files"
    and "snd (test_disk_write_speed (bench env) ''disk_test.tmp'' fs) = Inr d"
    and "\<forall>f\<in>set csv_files. parsed f \<noteq> None"
    and "\<not> division_overflows (int (length csv_files - 1) * t)"
  shows "\<exists>all_data.
    read_files t 1 csv_files = Inr all_data \<and>
    map Some all_data =
      map2 (\<lambda>i f. map_option (stamp t i (fname f)) (parsed f))
           [1..<Suc (length csv_files)] csv_files \<and>
    reindex_and_analyze env sel t up ts fs =
      analyse (in_name env) sel t ts d (cpu_load env)
        (fst (coerce (parse_float env) sel (concat_frames all_data)))
        (fs(''disk_test.tmp'' := None))
        (plan_messages d (length sel) (cpu_count env) up
         @ snd (coerce (parse_float env) sel (concat_frames all_data))) \<and>
    (\<forall>i name df.
       col_values (stamp t i name df) ''TimeSec''
         = replicate (length (rows df)) (Num (real (i - 1) * t)) \<and>
       col_values (stamp t i name df) ''TimeMin''
         = replicate (length (rows df)) (Num (real (i - 1) * t / 60)))"
proof -
  have "\<forall>j<length csv_files. \<not> division_overflows (int (1 + j - 1) * t)"
  proof (intro allI impI)
    fix j
    assume "j < length csv_files"
    then have "j \<le> length csv_files - 1" by simp
    from no_overflow_earlier [OF this assms(4)]
    show "\<not> division_overflows (int (1 + j - 1) * t)" by simp
  qed
  with read_files_proceeds [OF assms(3), of 1 t] obtain all_data
    where r: "read_files t 1 csv_files = Inr all_data" by blast
  from read_files_enumerate [OF r]
  have "map Some all_data =
      map2 (\<lambda>i f. map_option (stamp t i (fname f)) (parsed f))
           [1..<Suc (length csv_files)] csv_files" by simp
  with r run_success [OF assms(1,2) r, of sel up ts] show ?thesis
    by (simp add: col_values_stamp)
qed

text \<open>The sample run with an interval of minus five seconds.\<close>

theorem interval_not_validated_witness:
  "read_files (- 5) 1 [file_a, file_b] = Inr [frame_a, frame_b (- 5)] \<and>
   col_values (frame_b (- 5)) ''TimeSec'' = [Num (- 5)] \<and>
   reindex_and_analyze sample_env [''Diameter''] (- 5) False ''T'' Map.empty =
     analyse ''R2'' [''Diameter''] (- 5) ''T'' 100 10 (sample_merged (- 5)) Map.empty
       (plan_messages 100 1 4 False)"
proof -
  have p: "\<forall>f\<in>set [file_a, file_b]. parsed f \<noteq> None"
    by (simp add: file_a_def file_b_def)
  have o: "\<not> division_overflows (int (length [file_a, file_b] - 1) * (- 5))"
    using no_overflow_five(2) by simp
  from interval_not_validated [OF discover_sample benchmark_sample(1) p o,
      of "[''Diameter'']" False "''T''"]
  show ?thesis
    using read_sample [OF no_overflow_five(2)] run_five(4) [of False "''T''" Map.empty]
    by (simp add: col_values_def frame_b_def cell_of_def)
qed

end
